theory Spec2Isabelle
  imports Main "HOL-Library.AList"
begin

section \<open>Guild Wars Party Bot: the party roster and its handlers (src/src/index.ts)\<close>

text \<open>
  Conventions of the embedding.
  \<^item> A JavaScript string is a \<open>string\<close>, one \<open>char\<close> per code unit; code units above 255
    are outside the model.
  \<^item> \<open>Date\<close> values are their time value: an \<open>int\<close> of milliseconds since the epoch.
  \<^item> \<open>Map<string, Party>\<close> is an association list in insertion order:
    \<open>Map.get\<close> is \<open>map_of\<close>, \<open>Map.set\<close> is \<open>AList.update\<close> (replace in place, or append),
    \<open>Map.delete\<close> is \<open>AList.delete\<close>.
  \<^item> The handlers mutate the \<open>Party\<close> object that the map holds; the model writes the
    changed party back under its key.
  \<^item> A slot index is what \<open>parseInt(interaction.values[0])\<close> returned. It is a \<open>nat\<close>; an
    index outside the slot array (as \<open>NaN\<close> is) makes \<open>party.slots[i]\<close> undefined, and
    reading or writing its \<open>user\<close> throws a TypeError.
  \<^item> The calls to the chat platform (replies, message edits) change nothing of the state
    below; what a handler tells the user is returned as a \<open>reply\<close>.
\<close>

subsection \<open>Configuration\<close>

definition lockTimeout :: int where
  "lockTimeout = 3 * 60 * 60 * 1000"

record RunConfig =
  size :: nat
  roles :: "string list"

definition RUN_CONFIGS :: "(string \<times> RunConfig) list" where
  "RUN_CONFIGS =
   [(''BogSC'', \<lparr>size = 8, roles = [''Tank'', ''AotL MM'', ''Paragon'', ''VoS'', ''VoS'', ''VoS'', ''VoS'', ''VoS'']\<rparr>),
    (''DeepSC'', \<lparr>size = 12, roles = [''Tank'', ''EoE'', ''UA'', ''DPS'', ''DPS'', ''DPS'', ''DPS'', ''DPS'', ''DPS'', ''DPS'', ''DPS'', ''DPS'']\<rparr>),
    (''DoASC'', \<lparr>size = 8, roles = [''MT'', ''TT'', ''Caller'', ''TK'', ''IAU'', ''MLK'', ''UA'', ''Emo'']\<rparr>),
    (''FoWSC'', \<lparr>size = 8, roles = [''T1'', ''T2'', ''T3'', ''T4'', ''MT'', ''VoS'', ''VoS'', ''VoS'']\<rparr>),
    (''SoOSC'', \<lparr>size = 8, roles = [''MT'', ''Gater'', ''VoS'', ''TaO'', ''Glass Arrows'', ''Glass Arrows'', ''Glass Arrows'', ''Glass Arrows'']\<rparr>),
    (''UrgozSC'', \<lparr>size = 12, roles = [''Tank'', ''VoS'', ''SoS/EoE'', ''Deep Freeze'', ''Spiker'', ''Spiker'', ''Spiker'', ''Spiker'', ''Spiker'', ''Seeder'', ''Seeder'', ''Bonder'']\<rparr>),
    (''UWSC'', \<lparr>size = 8, roles = [''T1'', ''T2'', ''T3'', ''T4'', ''LT'', ''SoS'', ''Spiker'', ''Emo'']\<rparr>)]"

subsection \<open>Types\<close>

record PartySlot =
  role :: string
  user :: "string option"

record Party =
  type :: string
  leader :: string
  maxSize :: nat
  slots :: "PartySlot list"
  createdAt :: int
  messageId :: "string option"

datatype ButtonAction = join | leave | switch | ping | external | kick | promote | disband

text \<open>The values \<open>JSON.parse\<close> returns and \<open>JSON.stringify\<close> writes.\<close>

datatype json =
    JNull
  | JString string
  | JNumber int
  | JArray "json list"
  | JObject "(string \<times> json) list"

text \<open>
  The process state: the map \<open>activeParties\<close>, the content of the file at
  \<open>CONFIG.dataPath\<close> (\<open>None\<close> while the file does not exist) and the timers handed to
  \<open>setTimeout\<close>, each a party id with its delay in milliseconds, in the order of the calls.
\<close>

record state =
  activeParties :: "(string \<times> Party) list"
  disk :: "json option"
  timers :: "(string \<times> int) list"

text \<open>
  What the runtime and the file system contribute to one call: whether the write to the
  data file succeeds, and the two \<open>Date\<close> conversions of the JavaScript runtime that
  persistence goes through (\<open>Date.prototype.toISOString\<close>, which \<open>JSON.stringify\<close> applies
  to a \<open>Date\<close>, and the \<open>Date\<close> constructor on a string).
\<close>

record io =
  fsWrite :: bool
  toISOString :: "int \<Rightarrow> string"
  dateParse :: "string \<Rightarrow> int"

subsection \<open>Persistence helpers\<close>

definition jsonOfSlot :: "PartySlot \<Rightarrow> json" where
  "jsonOfSlot sl =
     JObject [(''role'', JString (role sl)),
              (''user'', case user sl of None \<Rightarrow> JNull | Some u \<Rightarrow> JString u)]"

text \<open>A property whose value is \<open>undefined\<close> (a missing \<open>messageId\<close>) is left out.\<close>

definition jsonOfParty :: "(int \<Rightarrow> string) \<Rightarrow> Party \<Rightarrow> json" where
  "jsonOfParty toISO p =
     JObject ([(''type'', JString (type p)),
               (''leader'', JString (leader p)),
               (''maxSize'', JNumber (int (maxSize p))),
               (''slots'', JArray (map jsonOfSlot (slots p))),
               (''createdAt'', JString (toISO (createdAt p)))]
              @ (case messageId p of None \<Rightarrow> [] | Some m \<Rightarrow> [(''messageId'', JString m)]))"

definition jsonOfEntries :: "(int \<Rightarrow> string) \<Rightarrow> (string \<times> Party) list \<Rightarrow> json" where
  "jsonOfEntries toISO data = JArray (map (\<lambda>(key, val). JArray [JString key, jsonOfParty toISO val]) data)"

text \<open>
  \<open>saveData\<close>: the whole map is written over the file. A failing write is caught and
  logged, and leaves the file as it was.
\<close>

definition saveData :: "io \<Rightarrow> state \<Rightarrow> state" where
  "saveData rt s =
     (if fsWrite rt then s\<lparr>disk := Some (jsonOfEntries (toISOString rt) (activeParties s))\<rparr>
      else s)"

text \<open>
  \<open>JSON.parse(raw) as [string, Party][]\<close> is an unchecked cast. The model reads the file
  as the entries that \<open>saveData\<close> writes; at a value of any other shape, which the code
  would store as it is, the model takes the exception path of \<open>loadData\<close>. The \<open>createdAt\<close> of an entry is the string on file until
  \<open>loadData\<close> replaces it by \<open>new Date(val.createdAt)\<close>, which \<open>partyOfJson\<close> includes.
\<close>

fun slotOfJson :: "json \<Rightarrow> PartySlot option" where
  "slotOfJson (JObject fs) =
     (case (map_of fs ''role'', map_of fs ''user'') of
        (Some (JString r), Some JNull) \<Rightarrow> Some \<lparr>role = r, user = None\<rparr>
      | (Some (JString r), Some (JString u)) \<Rightarrow> Some \<lparr>role = r, user = Some u\<rparr>
      | _ \<Rightarrow> None)"
| "slotOfJson _ = None"

fun slotsOfJson :: "json list \<Rightarrow> PartySlot list option" where
  "slotsOfJson [] = Some []"
| "slotsOfJson (j # js) =
     (case slotOfJson j of
        None \<Rightarrow> None
      | Some sl \<Rightarrow> (case slotsOfJson js of None \<Rightarrow> None | Some sls \<Rightarrow> Some (sl # sls)))"

fun partyOfJson :: "(string \<Rightarrow> int) \<Rightarrow> json \<Rightarrow> Party option" where
  "partyOfJson parse (JObject fs) =
     (case (map_of fs ''type'', map_of fs ''leader'', map_of fs ''maxSize'',
            map_of fs ''slots'', map_of fs ''createdAt'') of
        (Some (JString t), Some (JString l), Some (JNumber n), Some (JArray js), Some (JString c)) \<Rightarrow>
          (case slotsOfJson js of
             None \<Rightarrow> None
           | Some sls \<Rightarrow>
               (case map_of fs ''messageId'' of
                  None \<Rightarrow> Some \<lparr>type = t, leader = l, maxSize = nat n, slots = sls,
                                createdAt = parse c, messageId = None\<rparr>
                | Some (JString m) \<Rightarrow> Some \<lparr>type = t, leader = l, maxSize = nat n, slots = sls,
                                createdAt = parse c, messageId = Some m\<rparr>
                | Some _ \<Rightarrow> None))
      | _ \<Rightarrow> None)"
| "partyOfJson parse _ = None"

fun entryOfJson :: "(string \<Rightarrow> int) \<Rightarrow> json \<Rightarrow> (string \<times> Party) option" where
  "entryOfJson parse (JArray [JString key, val]) =
     (case partyOfJson parse val of None \<Rightarrow> None | Some p \<Rightarrow> Some (key, p))"
| "entryOfJson parse _ = None"

subsection \<open>Party lock system\<close>

text \<open>
  \<open>setupLockTimer\<close>, called at the time \<open>now\<close> (\<open>Date.now()\<close>): one more timer for the
  party, after \<open>remaining\<close> milliseconds.
\<close>

definition setupLockTimer :: "int \<Rightarrow> string \<Rightarrow> Party \<Rightarrow> state \<Rightarrow> state" where
  "setupLockTimer now partyId party s =
     (let elapsed = now - createdAt party;
          remaining = max 0 (lockTimeout - elapsed)
      in s\<lparr>timers := timers s @ [(partyId, remaining)]\<rparr>)"

text \<open>
  \<open>loadData\<close>: every entry of the file is revived, stored in the map and given its
  timer. An exception (here: an entry of another shape) ends the loop; what was loaded
  before it stays.
\<close>

fun loadEntries :: "io \<Rightarrow> int \<Rightarrow> json list \<Rightarrow> state \<Rightarrow> state" where
  "loadEntries rt now [] s = s"
| "loadEntries rt now (e # es) s =
     (case entryOfJson (dateParse rt) e of
        None \<Rightarrow> s
      | Some (key, val) \<Rightarrow>
          loadEntries rt now es
            (setupLockTimer now key val
               (s\<lparr>activeParties := AList.update key val (activeParties s)\<rparr>)))"

definition loadData :: "io \<Rightarrow> int \<Rightarrow> state \<Rightarrow> state" where
  "loadData rt now s =
     (case disk s of
        None \<Rightarrow> s
      | Some (JArray es) \<Rightarrow> loadEntries rt now es s
      | Some _ \<Rightarrow> s)"


text \<open>
  \<open>lockParty\<close>, the timer's callback. The calls to the platform between the first test and
  the \<open>finally\<close> block end in one of four ways; none of them changes what \<open>finally\<close> does.
  An empty \<open>messageId\<close> is as falsy as a missing one. The callback is taken as one step:
  in the code the \<open>finally\<close> block runs after up to three awaits, on the map as it is
  by then.
\<close>

datatype platform = NoChannel | NoMessage | Edited | EditFailed

definition dropParty :: "io \<Rightarrow> string \<Rightarrow> state \<Rightarrow> state" where
  "dropParty rt partyId s =
     saveData rt (s\<lparr>activeParties := AList.delete partyId (activeParties s)\<rparr>)"

definition lockParty :: "io \<Rightarrow> platform \<Rightarrow> string \<Rightarrow> state \<Rightarrow> state" where
  "lockParty rt outcome partyId s =
     (case map_of (activeParties s) partyId of
        None \<Rightarrow> s
      | Some party \<Rightarrow>
          (case messageId party of
             None \<Rightarrow> s
           | Some m \<Rightarrow>
               if m = [] then s
               else (case outcome of
                       NoMessage \<Rightarrow> dropParty rt partyId (dropParty rt partyId s)
                     | _ \<Rightarrow> dropParty rt partyId s)))"

subsection \<open>Replies\<close>

text \<open>
  The refusals of the handlers, named after the error they stand for:
  \<^item> \<open>NotFound\<close>: "This party is locked or no longer exists.", "This party no longer exists."
  \<^item> \<open>AlreadyAssigned\<close>: "You already have a role."
  \<^item> \<open>Full\<close>: "Party is full!", "No available slots to reserve."
  \<^item> \<open>NoCurrentRole\<close>: "You don't have a role to switch from.", "You don't have a role to switch."
  \<^item> \<open>SlotTaken\<close>: "That slot was just taken."
  \<^item> \<open>EmptySlot\<close>: "That slot is already empty."
  \<^item> \<open>NotLeader\<close>: "Only the party leader can ..."
  \<^item> \<open>InvalidTarget\<close>: "You cannot promote an external (non-Discord) player."
  \<^item> \<open>EmptyName\<close>: "IGN cannot be empty."
  \<^item> \<open>NoPlayers\<close>: "No Discord users to ping.", "There are no players to kick.",
    "No eligible players to promote."
\<close>

datatype failure =
    NotFound | AlreadyAssigned | Full | NoCurrentRole | SlotTaken | EmptySlot
  | NotLeader | InvalidTarget | EmptyName | NoPlayers

text \<open>
  \<open>Done\<close> is the confirmation of an action that was carried out; a menu carries the values
  of its options; \<open>Fault\<close> is an exception on its way to the \<open>catch\<close> of the interaction
  handler ("An error occurred while processing your request.").
\<close>

datatype reply =
    Done
  | SlotMenu "nat list"
  | UserMenu "string list"
  | Modal nat
  | Mention "string list"
  | Failed failure
  | Fault

subsection \<open>Helpers on strings, slots and parties\<close>

definition startsWith :: "string \<Rightarrow> string \<Rightarrow> bool" where
  "startsWith s p = (take (length p) s = p)"

text \<open>
  \<open>String.prototype.trim\<close> removes the WhiteSpace and LineTerminator code units from both
  ends; below 256 these are TAB, LF, VT, FF, CR, SP and NBSP.
\<close>

definition isWhiteSpace :: "char \<Rightarrow> bool" where
  "isWhiteSpace c = (of_char c \<in> {9, 10, 11, 12, 13, 32, 160 :: nat})"

definition trim :: "string \<Rightarrow> string" where
  "trim s = rev (dropWhile isWhiteSpace (rev (dropWhile isWhiteSpace s)))"

fun findIndex :: "('a \<Rightarrow> bool) \<Rightarrow> 'a list \<Rightarrow> nat option" where
  "findIndex P [] = None"
| "findIndex P (x # xs) = (if P x then Some 0 else map_option Suc (findIndex P xs))"

text \<open>\<open>party.slots[i].user = v\<close>, for an index inside the array.\<close>

definition setUser :: "nat \<Rightarrow> string option \<Rightarrow> Party \<Rightarrow> Party" where
  "setUser i v party = party\<lparr>slots := (slots party)[i := (slots party ! i)\<lparr>user := v\<rparr>]\<rparr>"

text \<open>The indices of the slots that satisfy \<open>P\<close>: \<open>slots.map((s, i) => ({...s, i})).filter(P)\<close>.\<close>

definition slotIndices :: "(PartySlot \<Rightarrow> bool) \<Rightarrow> Party \<Rightarrow> nat list" where
  "slotIndices P party = filter (\<lambda>i. P (slots party ! i)) [0..<length (slots party)]"

text \<open>The party object held by the map under \<open>partyId\<close> after a handler has changed it.\<close>

definition store :: "string \<Rightarrow> Party \<Rightarrow> state \<Rightarrow> state" where
  "store partyId party s =
     s\<lparr>activeParties := AList.map_entry partyId (\<lambda>_. party) (activeParties s)\<rparr>"

subsection \<open>Select menu handler: run selection\<close>

text \<open>
  \<open>handleRunSelection\<close>. The environment supplies the fresh id (\<open>crypto.randomUUID\<close>), the
  time of \<open>new Date()\<close>, what became of the post in the target channel, and the time at
  which \<open>setupLockTimer\<close> reads the clock. An unknown run type makes \<open>config\<close> undefined
  and \<open>config.size\<close> throw before anything is stored.
\<close>

datatype posting = ChannelMissing | SendFailed | Sent string

datatype creation = Posted | ChannelFailure | Crashed

definition handleRunSelection ::
  "io \<Rightarrow> string \<Rightarrow> string \<Rightarrow> string \<Rightarrow> int \<Rightarrow> posting \<Rightarrow> int \<Rightarrow> state \<Rightarrow> creation \<times> state" where
  "handleRunSelection rt runType userId partyId created post armed s =
     (case map_of RUN_CONFIGS runType of
        None \<Rightarrow> (Crashed, s)
      | Some config \<Rightarrow>
          (let newParty = \<lparr>type = runType, leader = userId, maxSize = size config,
                           slots = map (\<lambda>r. \<lparr>role = r, user = None\<rparr>) (roles config),
                           createdAt = created, messageId = None\<rparr>;
               s1 = s\<lparr>activeParties := AList.update partyId newParty (activeParties s)\<rparr>
           in case post of
                ChannelMissing \<Rightarrow> (ChannelFailure, s1)
              | SendFailed \<Rightarrow> (Crashed, s1)
              | Sent sentId \<Rightarrow>
                  (let posted = newParty\<lparr>messageId := Some sentId\<rparr>
                   in (Posted, setupLockTimer armed partyId posted
                                 (saveData rt (store partyId posted s1))))))"

subsection \<open>Button action handlers\<close>

definition handleLeaveAction :: "io \<Rightarrow> string \<Rightarrow> string \<Rightarrow> Party \<Rightarrow> state \<Rightarrow> reply \<times> state" where
  "handleLeaveAction rt userId partyId party s =
     (Done,
      saveData rt
        (store partyId
           (party\<lparr>slots := map (\<lambda>slot. if user slot = Some userId then slot\<lparr>user := None\<rparr> else slot)
                               (slots party)\<rparr>) s))"

definition handleJoinAction :: "string \<Rightarrow> Party \<Rightarrow> state \<Rightarrow> reply \<times> state" where
  "handleJoinAction userId party s =
     (if list_ex (\<lambda>sl. user sl = Some userId) (slots party) then (Failed AlreadyAssigned, s)
      else (let available = slotIndices (\<lambda>sl. user sl = None) party
            in if available = [] then (Failed Full, s) else (SlotMenu available, s)))"

definition handleDisbandAction :: "io \<Rightarrow> string \<Rightarrow> string \<Rightarrow> Party \<Rightarrow> state \<Rightarrow> reply \<times> state" where
  "handleDisbandAction rt userId partyId party s =
     (if userId \<noteq> leader party then (Failed NotLeader, s)
      else (Done, saveData rt (s\<lparr>activeParties := AList.delete partyId (activeParties s)\<rparr>)))"

definition handleSwitchAction :: "string \<Rightarrow> Party \<Rightarrow> state \<Rightarrow> reply \<times> state" where
  "handleSwitchAction userId party s =
     (case find (\<lambda>sl. user sl = Some userId) (slots party) of
        None \<Rightarrow> (Failed NoCurrentRole, s)
      | Some currentSlot \<Rightarrow>
          (SlotMenu (slotIndices (\<lambda>sl. user sl = None \<or> user sl = Some userId) party), s))"

definition discordUser :: "PartySlot \<Rightarrow> bool" where
  "discordUser sl = (case user sl of None \<Rightarrow> False | Some u \<Rightarrow> \<not> startsWith u ''IGN:'')"

definition handlePingAction :: "string \<Rightarrow> Party \<Rightarrow> state \<Rightarrow> reply \<times> state" where
  "handlePingAction userId party s =
     (if userId \<noteq> leader party then (Failed NotLeader, s)
      else (let mentions = map (\<lambda>sl. the (user sl)) (filter discordUser (slots party))
            in if mentions = [] then (Failed NoPlayers, s) else (Mention mentions, s)))"

definition handleExternalAction :: "string \<Rightarrow> Party \<Rightarrow> state \<Rightarrow> reply \<times> state" where
  "handleExternalAction userId party s =
     (if userId \<noteq> leader party then (Failed NotLeader, s)
      else (let available = slotIndices (\<lambda>sl. user sl = None) party
            in if available = [] then (Failed Full, s) else (SlotMenu available, s)))"

definition handleKickAction :: "string \<Rightarrow> Party \<Rightarrow> state \<Rightarrow> reply \<times> state" where
  "handleKickAction userId party s =
     (if userId \<noteq> leader party then (Failed NotLeader, s)
      else (let filled = slotIndices (\<lambda>sl. user sl \<noteq> None) party
            in if filled = [] then (Failed NoPlayers, s) else (SlotMenu filled, s)))"

definition handlePromoteAction :: "string \<Rightarrow> Party \<Rightarrow> state \<Rightarrow> reply \<times> state" where
  "handlePromoteAction userId party s =
     (if userId \<noteq> leader party then (Failed NotLeader, s)
      else (let eligible = filter discordUser (slots party)
            in if eligible = [] then (Failed NoPlayers, s)
               else (UserMenu (map (\<lambda>sl. the (user sl)) eligible), s)))"

subsection \<open>Event handler: interactions\<close>

text \<open>
  The interactions that name a party, with the id of the user who sent them: a button
  of the party post, a choice in one of the select menus (\<open>pick_\<close>, \<open>switchpick_\<close>,
  \<open>externalrole_\<close>, \<open>kickpick_\<close>, \<open>promotepick_\<close>) or the submitted modal
  (\<open>externalign_\<close>) with the text typed into it.
\<close>

datatype interaction =
    Button ButtonAction string string
  | Pick string string nat
  | SwitchPick string string nat
  | ExternalRole string string nat
  | KickPick string string nat
  | PromotePick string string string
  | ExternalIgn string string nat string

definition buttonAction :: "io \<Rightarrow> ButtonAction \<Rightarrow> string \<Rightarrow> string \<Rightarrow> state \<Rightarrow> reply \<times> state" where
  "buttonAction rt action partyId userId s =
     (case map_of (activeParties s) partyId of
        None \<Rightarrow> (Failed NotFound, s)
      | Some party \<Rightarrow>
          (case action of
             leave \<Rightarrow> handleLeaveAction rt userId partyId party s
           | join \<Rightarrow> handleJoinAction userId party s
           | disband \<Rightarrow> handleDisbandAction rt userId partyId party s
           | switch \<Rightarrow> handleSwitchAction userId party s
           | ping \<Rightarrow> handlePingAction userId party s
           | external \<Rightarrow> handleExternalAction userId party s
           | kick \<Rightarrow> handleKickAction userId party s
           | promote \<Rightarrow> handlePromoteAction userId party s))"

definition rolePick :: "io \<Rightarrow> string \<Rightarrow> string \<Rightarrow> nat \<Rightarrow> state \<Rightarrow> reply \<times> state" where
  "rolePick rt partyId userId slotIdx s =
     (case map_of (activeParties s) partyId of
        None \<Rightarrow> (Failed NotFound, s)
      | Some party \<Rightarrow>
          if \<not> slotIdx < length (slots party) then (Fault, s)
          else if user (slots party ! slotIdx) \<noteq> None then (Failed SlotTaken, s)
          else (Done, saveData rt (store partyId (setUser slotIdx (Some userId) party) s)))"

text \<open>
  In \<open>roleSwitchPick\<close> the old slot is cleared before the new one is written: with a new
  index outside the array the second assignment throws after the first took effect, and
  nothing is saved.
\<close>

definition roleSwitchPick :: "io \<Rightarrow> string \<Rightarrow> string \<Rightarrow> nat \<Rightarrow> state \<Rightarrow> reply \<times> state" where
  "roleSwitchPick rt partyId userId newIdx s =
     (case map_of (activeParties s) partyId of
        None \<Rightarrow> (Failed NotFound, s)
      | Some party \<Rightarrow>
          (case findIndex (\<lambda>sl. user sl = Some userId) (slots party) of
             None \<Rightarrow> (Failed NoCurrentRole, s)
           | Some oldIdx \<Rightarrow>
               (let cleared = setUser oldIdx None party
                in if \<not> newIdx < length (slots cleared) then (Fault, store partyId cleared s)
                   else (Done, saveData rt
                                 (store partyId (setUser newIdx (Some userId) cleared) s)))))"

definition externalRoleSelection :: "string \<Rightarrow> string \<Rightarrow> nat \<Rightarrow> state \<Rightarrow> reply \<times> state" where
  "externalRoleSelection partyId userId roleIdx s =
     (case map_of (activeParties s) partyId of
        None \<Rightarrow> (Failed NotFound, s)
      | Some party \<Rightarrow>
          if userId \<noteq> leader party then (Failed NotLeader, s)
          else if \<not> roleIdx < length (slots party) then (Fault, s)
          else if user (slots party ! roleIdx) \<noteq> None then (Failed SlotTaken, s)
          else (Modal roleIdx, s))"

text \<open>\<open>!kickedUser\<close> holds for \<open>null\<close> and for the empty string.\<close>

definition kickPick :: "io \<Rightarrow> string \<Rightarrow> string \<Rightarrow> nat \<Rightarrow> state \<Rightarrow> reply \<times> state" where
  "kickPick rt partyId userId slotIdx s =
     (case map_of (activeParties s) partyId of
        None \<Rightarrow> (Failed NotFound, s)
      | Some party \<Rightarrow>
          if userId \<noteq> leader party then (Failed NotLeader, s)
          else if \<not> slotIdx < length (slots party) then (Fault, s)
          else (case user (slots party ! slotIdx) of
                  None \<Rightarrow> (Failed EmptySlot, s)
                | Some kickedUser \<Rightarrow>
                    if kickedUser = [] then (Failed EmptySlot, s)
                    else (Done, saveData rt (store partyId (setUser slotIdx None party) s))))"

definition promotePick :: "io \<Rightarrow> string \<Rightarrow> string \<Rightarrow> string \<Rightarrow> state \<Rightarrow> reply \<times> state" where
  "promotePick rt partyId userId newLeaderId s =
     (case map_of (activeParties s) partyId of
        None \<Rightarrow> (Failed NotFound, s)
      | Some party \<Rightarrow>
          if userId \<noteq> leader party then (Failed NotLeader, s)
          else if startsWith newLeaderId ''IGN:'' then (Failed InvalidTarget, s)
          else (Done, saveData rt (store partyId (party\<lparr>leader := newLeaderId\<rparr>) s)))"

definition externalIgn :: "io \<Rightarrow> string \<Rightarrow> string \<Rightarrow> nat \<Rightarrow> string \<Rightarrow> state \<Rightarrow> reply \<times> state" where
  "externalIgn rt partyId userId roleIdx ign_input s =
     (case map_of (activeParties s) partyId of
        None \<Rightarrow> (Failed NotFound, s)
      | Some party \<Rightarrow>
          if userId \<noteq> leader party then (Failed NotLeader, s)
          else if \<not> roleIdx < length (slots party) then (Fault, s)
          else if user (slots party ! roleIdx) \<noteq> None then (Failed SlotTaken, s)
          else (let ign = trim ign_input
                in if ign = [] then (Failed EmptyName, s)
                   else (Done, saveData rt
                                 (store partyId (setUser roleIdx (Some (''IGN:'' @ ign)) party) s))))"

fun interactionCreate :: "io \<Rightarrow> interaction \<Rightarrow> state \<Rightarrow> reply \<times> state" where
  "interactionCreate rt (Button action partyId userId) s = buttonAction rt action partyId userId s"
| "interactionCreate rt (Pick partyId userId slotIdx) s = rolePick rt partyId userId slotIdx s"
| "interactionCreate rt (SwitchPick partyId userId newIdx) s = roleSwitchPick rt partyId userId newIdx s"
| "interactionCreate rt (ExternalRole partyId userId roleIdx) s = externalRoleSelection partyId userId roleIdx s"
| "interactionCreate rt (KickPick partyId userId slotIdx) s = kickPick rt partyId userId slotIdx s"
| "interactionCreate rt (PromotePick partyId userId newLeaderId) s = promotePick rt partyId userId newLeaderId s"
| "interactionCreate rt (ExternalIgn partyId userId roleIdx ign_input) s = externalIgn rt partyId userId roleIdx ign_input s"

text \<open>
  A sequence of interactions, handled one after the other under one runtime: the replies
  in order, and the state at the end.
\<close>

fun interactions :: "io \<Rightarrow> interaction list \<Rightarrow> state \<Rightarrow> reply list \<times> state" where
  "interactions rt [] s = ([], s)"
| "interactions rt (i # is) s =
     (let (r, s1) = interactionCreate rt i s;
          (rs, s2) = interactions rt is s1
      in (r # rs, s2))"

subsection \<open>External players in the roster\<close>

text \<open>
  A name is trimmed when it is not empty and has no whitespace at either end. The
  external players of a state are trimmed when every \<open>user\<close> with the prefix \<open>IGN:\<close>
  carries a trimmed name after it. \<open>actor\<close> is the user who sent an interaction.
\<close>

definition trimmedName :: "string \<Rightarrow> bool" where
  "trimmedName name = (name \<noteq> [] \<and> \<not> isWhiteSpace (hd name) \<and> \<not> isWhiteSpace (last name))"

definition externalTrimmed :: "string option \<Rightarrow> bool" where
  "externalTrimmed v =
     (case v of None \<Rightarrow> True
      | Some u \<Rightarrow> if startsWith u ''IGN:'' then trimmedName (drop 4 u) else True)"

definition externalsTrimmed :: "state \<Rightarrow> bool" where
  "externalsTrimmed s =
     list_all (\<lambda>(k, p). list_all (\<lambda>sl. externalTrimmed (user sl)) (slots p)) (activeParties s)"

fun actor :: "interaction \<Rightarrow> string" where
  "actor (Button action partyId userId) = userId"
| "actor (Pick partyId userId slotIdx) = userId"
| "actor (SwitchPick partyId userId newIdx) = userId"
| "actor (ExternalRole partyId userId roleIdx) = userId"
| "actor (KickPick partyId userId slotIdx) = userId"
| "actor (PromotePick partyId userId newLeaderId) = userId"
| "actor (ExternalIgn partyId userId roleIdx ign_input) = userId"

abbreviation slotsOk :: "Party \<Rightarrow> bool" where
  "slotsOk p \<equiv> list_all (\<lambda>sl. externalTrimmed (user sl)) (slots p)"

subsection \<open>Handlers in flight\<close>

text \<open>
  An async handler runs without interruption from the arrival of its interaction to its
  first \<open>await\<close> of a pending promise, and then again from one \<open>await\<close> to the next. In
  each handler above, every test and every write of the state lies before the first
  \<open>await\<close> of a platform call; after it come platform calls only (which read the party
  to render it), and at last the \<open>finally\<close> block of \<open>withPartyLock\<close>.

  A process is the state together with the map \<open>partyLocks\<close>, the calls of
  \<open>withPartyLock\<close> whose \<open>fn\<close> has not settled (each with its party id), the calls that
  have run their \<open>finally\<close> block, in that order, and the replies given so far. A call is
  numbered by the count of interactions before it. A promise in \<open>partyLocks\<close> is the list
  of the calls whose \<open>current\<close> it chains: \<open>Promise.resolve()\<close> is the empty list and
  \<open>previous.then(() => current)\<close> adds the call at the end.
\<close>

record process =
  mem :: state
  partyLocks :: "(string \<times> nat list) list"
  running :: "(nat \<times> string) list"
  settled :: "nat list"
  answers :: "reply list"

text \<open>
  \<open>withPartyLock\<close> up to the first \<open>await\<close> inside \<open>fn\<close>: the chained promise is stored, and
  \<open>fn\<close> is called at once. Neither \<open>previous\<close> nor the stored promise is awaited anywhere.
\<close>

definition withPartyLock :: "string \<Rightarrow> (state \<Rightarrow> reply \<times> state) \<Rightarrow> process \<Rightarrow> process" where
  "withPartyLock partyId fn c =
     (let k = length (answers c);
          previous = (case map_of (partyLocks c) partyId of None \<Rightarrow> [] | Some chain \<Rightarrow> chain);
          c1 = c\<lparr>partyLocks := AList.update partyId (previous @ [k]) (partyLocks c)\<rparr>;
          (r, m) = fn (mem c1)
      in c1\<lparr>mem := m, running := running c1 @ [(k, partyId)], answers := answers c1 @ [r]\<rparr>)"

text \<open>
  The \<open>finally\<close> block of the call \<open>k\<close>, run when the promise of its \<open>fn\<close> settles:
  \<open>release()\<close> resolves \<open>current\<close>. The promise held by \<open>partyLocks\<close> is the result of
  \<open>then\<close>, never the object \<open>current\<close>, so the test \<open>partyLocks.get(partyId) === current\<close>
  fails and the entry stays.
\<close>

definition release :: "nat \<Rightarrow> process \<Rightarrow> process" where
  "release k c =
     (case map_of (running c) k of
        None \<Rightarrow> c
      | Some partyId \<Rightarrow> c\<lparr>running := AList.delete k (running c), settled := settled c @ [k]\<rparr>)"

text \<open>
  What happens to a process: an interaction arrives and its handler runs to its first
  \<open>await\<close> of the platform, or the platform calls of the call \<open>k\<close> have resolved and its
  handler runs to its end. The \<open>externalrole_\<close> menu is handled outside \<open>withPartyLock\<close>.
\<close>

datatype event = Arrive interaction | Settle nat

fun partyOf :: "interaction \<Rightarrow> string" where
  "partyOf (Button action partyId userId) = partyId"
| "partyOf (Pick partyId userId slotIdx) = partyId"
| "partyOf (SwitchPick partyId userId newIdx) = partyId"
| "partyOf (ExternalRole partyId userId roleIdx) = partyId"
| "partyOf (KickPick partyId userId slotIdx) = partyId"
| "partyOf (PromotePick partyId userId newLeaderId) = partyId"
| "partyOf (ExternalIgn partyId userId roleIdx ign_input) = partyId"

fun occur :: "io \<Rightarrow> event \<Rightarrow> process \<Rightarrow> process" where
  "occur rt (Arrive (ExternalRole partyId userId roleIdx)) c =
     (let (r, m) = externalRoleSelection partyId userId roleIdx (mem c)
      in c\<lparr>mem := m, answers := answers c @ [r]\<rparr>)"
| "occur rt (Arrive i) c = withPartyLock (partyOf i) (interactionCreate rt i) c"
| "occur rt (Settle k) c = release k c"

fun occurAll :: "io \<Rightarrow> event list \<Rightarrow> process \<Rightarrow> process" where
  "occurAll rt [] c = c"
| "occurAll rt (e # es) c = occurAll rt es (occur rt e c)"

definition idle :: "state \<Rightarrow> process" where
  "idle s = \<lparr>mem = s, partyLocks = [], running = [], settled = [], answers = []\<rparr>"


subsection \<open>Shutdown and startup\<close>

text \<open>
  \<open>gracefulShutdown\<close> saves the map before the process exits. A new process starts with an
  empty map and no timer, finds the file as the last process left it, and its
  \<open>clientReady\<close> handler loads it.
\<close>

definition gracefulShutdown :: "io \<Rightarrow> state \<Rightarrow> state" where
  "gracefulShutdown rt s = saveData rt s"

definition clientReady :: "io \<Rightarrow> int \<Rightarrow> json option \<Rightarrow> state" where
  "clientReady rt now file = loadData rt now \<lparr>activeParties = [], disk = file, timers = []\<rparr>"

subsection \<open>Sample values\<close>

text \<open>
  A runtime whose two date conversions agree on the two instants used below, a party of
  the run type \<open>UWSC\<close> posted at 2026-11-03 06:41 UTC, and states that hold it.
\<close>

definition sampleToISO :: "int \<Rightarrow> string" where
  "sampleToISO t =
     (if t = 1793688060000 then ''2026-11-03T06:41:00.000Z''
      else if t = 1793671200000 then ''2026-11-03T02:00:00.000Z''
      else [])"

definition sampleParse :: "string \<Rightarrow> int" where
  "sampleParse str =
     (if str = ''2026-11-03T06:41:00.000Z'' then 1793688060000
      else if str = ''2026-11-03T02:00:00.000Z'' then 1793671200000
      else 0)"

definition sampleRuntime :: io where
  "sampleRuntime = \<lparr>fsWrite = True, toISOString = sampleToISO, dateParse = sampleParse\<rparr>"

definition roster :: "string option list \<Rightarrow> PartySlot list" where
  "roster us = map (\<lambda>(r, u). \<lparr>role = r, user = u\<rparr>)
                   (zip [''T1'', ''T2'', ''T3'', ''T4'', ''LT'', ''SoS'', ''Spiker'', ''Emo''] us)"

definition emptySlots :: "PartySlot list" where
  "emptySlots = roster [None, None, None, None, None, None, None, None]"

definition twiceSeated :: "PartySlot list" where
  "twiceSeated = roster [Some ''100'', Some ''200'', None, None, None, Some ''200'', None, None]"

definition sampleParty :: "PartySlot list \<Rightarrow> Party" where
  "sampleParty sls = \<lparr>type = ''UWSC'', leader = ''100'', maxSize = 8, slots = sls,
                       createdAt = 1793688060000, messageId = Some ''900''\<rparr>"

definition sampleState :: "PartySlot list \<Rightarrow> state" where
  "sampleState sls = \<lparr>activeParties = [(''party_1'', sampleParty sls)], disk = None, timers = []\<rparr>"

definition mixedSeated :: "PartySlot list" where
  "mixedSeated = roster [Some ''100'', Some ''IGN:Bob'', None, None, None, None, None, None]"

definition leaderSeated :: "PartySlot list" where
  "leaderSeated = roster [Some ''100'', None, None, None, None, None, None, None]"

definition pairSeated :: "PartySlot list" where
  "pairSeated = roster [Some ''100'', Some ''200'', None, None, None, None, None, None]"

text \<open>
  The member 200 presses Claim Role twice, and chooses slot 1 in the first menu and
  slot 2 in the second.
\<close>

definition doubleClaim :: "interaction list" where
  "doubleClaim = [Button join ''party_1'' ''200'', Button join ''party_1'' ''200'',
                  Pick ''party_1'' ''200'' 1, Pick ''party_1'' ''200'' 2]"

text \<open>
  The leader 100, in slot 0, opens the switch menu while slot 1 is free; the member 200
  then claims slot 1; the leader then chooses slot 1 in the menu still open.
\<close>

definition lateSwitch :: "interaction list" where
  "lateSwitch = [Button switch ''party_1'' ''100'', Button join ''party_1'' ''200'',
                 Pick ''party_1'' ''200'' 1, SwitchPick ''party_1'' ''100'' 1]"

text \<open>
  The leader 100 opens the promote menu while the member 200 holds slot 1; the member
  leaves; the leader then chooses the member in the menu still open.
\<close>

definition latePromote :: "interaction list" where
  "latePromote = [Button promote ''party_1'' ''100'', Button leave ''party_1'' ''200'',
                  PromotePick ''party_1'' ''100'' ''200'']"

text \<open>
  The members 200 and 300 choose slot 1 one right after the other; the platform calls of
  the second handler resolve before those of the first.
\<close>

definition overtaking :: "event list" where
  "overtaking = [Arrive (Pick ''party_1'' ''200'' 1), Arrive (Pick ''party_1'' ''300'' 1),
                 Settle 1, Settle 0]"

text \<open>
  A party is selected at 02:00 while the target channel cannot be fetched, so it is stored
  without a \<open>messageId\<close>; the process is shut down, and started again at 06:41.
\<close>

definition unposted :: state where
  "unposted = snd (handleRunSelection sampleRuntime ''UWSC'' ''100'' ''party_1'' 1793671200000
                     ChannelMissing 1793671200000 \<lparr>activeParties = [], disk = None, timers = []\<rparr>)"

definition stranded :: state where
  "stranded = clientReady sampleRuntime 1793688060000 (disk (gracefulShutdown sampleRuntime unposted))"

section \<open>Properties\<close>

subsection \<open>The map of parties under the helpers\<close>

lemma map_of_store:
  "map_of (activeParties (store k p s)) k' =
     (if k' = k \<and> map_of (activeParties s) k \<noteq> None then Some p else map_of (activeParties s) k')"
  by (auto simp: store_def AList.map_of_map_entry split: option.splits)

lemma keys_map_entry: "map fst (AList.map_entry k f al) = map fst al"
  by (induction al) auto

lemma keys_store: "map fst (activeParties (store k p s)) = map fst (activeParties s)"
  by (simp add: store_def keys_map_entry)

lemma activeParties_saveData: "activeParties (saveData rt s) = activeParties s"
  by (simp add: saveData_def)

lemma timers_saveData: "timers (saveData rt s) = timers s"
  by (simp add: saveData_def)

subsection \<open>Leaving\<close>

lemma clear_absent_user:
  "\<forall>sl \<in> set xs. user sl \<noteq> Some u \<Longrightarrow>
   map (\<lambda>slot. if user slot = Some u then slot\<lparr>user := None\<rparr> else slot) xs = xs"
  by (induction xs) auto

text \<open>
  C9. The Leave button on a party of the map always answers with the updated post, never
  with a refusal. In the party it clears every slot whose \<open>user\<close> is the id of the member
  who left, not only the first; every other slot keeps its user, every slot keeps its
  role, and the leader and the other fields of the party, the other parties and the set
  of party ids stay as they were. A member who holds no slot leaves the roster as it is.
\<close>

theorem leave_clears_every_slot:
  assumes "map_of (activeParties s) partyId = Some party"
    and "buttonAction rt leave partyId userId s = (r, s')"
  shows "r = Done \<and> map fst (activeParties s') = map fst (activeParties s) \<and>
    (\<forall>k. k \<noteq> partyId \<longrightarrow> map_of (activeParties s') k = map_of (activeParties s) k) \<and>
    (\<exists>party'. map_of (activeParties s') partyId = Some party' \<and>
       leader party' = leader party \<and> type party' = type party \<and>
       maxSize party' = maxSize party \<and> createdAt party' = createdAt party \<and>
       messageId party' = messageId party \<and>
       length (slots party') = length (slots party) \<and>
       (\<forall>i < length (slots party).
          role (slots party' ! i) = role (slots party ! i) \<and>
          user (slots party' ! i) =
            (if user (slots party ! i) = Some userId then None else user (slots party ! i))) \<and>
       (\<not> list_ex (\<lambda>sl. user sl = Some userId) (slots party) \<longrightarrow> party' = party))"
  using assms
  by (auto simp: buttonAction_def handleLeaveAction_def map_of_store keys_store
      activeParties_saveData list_ex_iff clear_absent_user)

text \<open>The theorem at a roster where the member 200 holds two slots: both are cleared.\<close>

theorem leave_clears_every_slot_witness:
  "map_of (activeParties (sampleState twiceSeated)) ''party_1'' = Some (sampleParty twiceSeated) \<and>
   fst (buttonAction sampleRuntime leave ''party_1'' ''200'' (sampleState twiceSeated)) = Done \<and>
   (\<exists>party'. map_of (activeParties (snd (buttonAction sampleRuntime leave ''party_1'' ''200''
                                            (sampleState twiceSeated)))) ''party_1'' = Some party' \<and>
      leader party' = ''100'' \<and>
      map user (slots party') = [Some ''100'', None, None, None, None, None, None, None])"
proof -
  let ?s = "sampleState twiceSeated"
  have h1: "map_of (activeParties ?s) ''party_1'' = Some (sampleParty twiceSeated)"
    by (simp add: sampleState_def)
  have h2: "buttonAction sampleRuntime leave ''party_1'' ''200'' ?s =
      (fst (buttonAction sampleRuntime leave ''party_1'' ''200'' ?s),
       snd (buttonAction sampleRuntime leave ''party_1'' ''200'' ?s))"
    by simp
  from leave_clears_every_slot [OF h1 h2]
  obtain party' where r: "fst (buttonAction sampleRuntime leave ''party_1'' ''200'' ?s) = Done"
    and p: "map_of (activeParties (snd (buttonAction sampleRuntime leave ''party_1'' ''200'' ?s)))
              ''party_1'' = Some party'"
    and l: "leader party' = leader (sampleParty twiceSeated)"
    and n: "length (slots party') = length (slots (sampleParty twiceSeated))"
    and u: "\<forall>i < length (slots (sampleParty twiceSeated)).
          role (slots party' ! i) = role (slots (sampleParty twiceSeated) ! i) \<and>
          user (slots party' ! i) =
            (if user (slots (sampleParty twiceSeated) ! i) = Some ''200'' then None
             else user (slots (sampleParty twiceSeated) ! i))"
    by blast
  have len: "length (slots (sampleParty twiceSeated)) = 8"
    by (simp add: sampleParty_def twiceSeated_def roster_def)
  have "map user (slots party') = [Some ''100'', None, None, None, None, None, None, None]"
  proof (rule nth_equalityI)
    show "length (map user (slots party')) = length [Some ''100'', None, None, None, None, None, None, None]"
      using n len by simp
  next
    fix i assume "i < length (map user (slots party'))"
    then have i: "i < 8" using n len by simp
    then have "i \<in> {0, 1, 2, 3, 4, 5, 6, 7}" by auto
    then show "map user (slots party') ! i = [Some ''100'', None, None, None, None, None, None, None] ! i"
      using u n len i by (auto simp: sampleParty_def twiceSeated_def roster_def)
  qed
  then show ?thesis using h1 r p l by (simp add: sampleParty_def)
qed

subsection \<open>Refusals\<close>

lemma buttonAction_refusal: "buttonAction rt a partyId userId s = (Failed f, s') \<Longrightarrow> s' = s"
  by (cases a)
     (auto simp: buttonAction_def handleLeaveAction_def handleJoinAction_def
        handleDisbandAction_def handleSwitchAction_def handlePingAction_def
        handleExternalAction_def handleKickAction_def handlePromoteAction_def Let_def
        split: option.splits if_splits)

text \<open>
  Whenever an interaction on a party is refused (the party is not in the map, the
  user is not the leader, already has a role, has none to switch from, the party is full
  or has nobody to act on, the slot is taken or empty, the target is external, the name
  is empty), the handler returns before the first write: the whole state after it, map,
  file and timers, is the state before it. Likewise a run selection of an unknown run
  type ends before the party is stored.
\<close>

lemma refusal_changes_nothing:
  "(interactionCreate rt i s = (Failed f, s') \<longrightarrow> s' = s) \<and>
   (map_of RUN_CONFIGS runType = None \<longrightarrow>
      handleRunSelection rt runType userId partyId created post armed s = (Crashed, s))"
proof (intro conjI impI)
  assume "interactionCreate rt i s = (Failed f, s')"
  then show "s' = s"
    by (cases i)
       (auto simp: rolePick_def roleSwitchPick_def externalRoleSelection_def kickPick_def
          promotePick_def externalIgn_def Let_def
          dest: buttonAction_refusal split: option.splits if_splits)
next
  assume "map_of RUN_CONFIGS runType = None"
  then show "handleRunSelection rt runType userId partyId created post armed s = (Crashed, s)"
    by (simp add: handleRunSelection_def)
qed

text \<open>
  So it is at a refused pick (slot 1 of the sample party is taken) and at the unknown
  run type \<open>Raid\<close>.
\<close>

lemma refusal_changes_nothing_sample:
  "interactionCreate sampleRuntime (Pick ''party_1'' ''300'' 1) (sampleState twiceSeated) =
     (Failed SlotTaken, sampleState twiceSeated) \<and>
   map_of RUN_CONFIGS ''Raid'' = None \<and>
   handleRunSelection sampleRuntime ''Raid'' ''100'' ''party_2'' 1793688060000 (Sent ''901'')
       1793688060000 (sampleState twiceSeated) = (Crashed, sampleState twiceSeated)"
proof -
  let ?s = "sampleState twiceSeated"
  let ?i = "Pick ''party_1'' ''300'' 1"
  have r: "fst (interactionCreate sampleRuntime ?i ?s) = Failed SlotTaken"
    by (simp add: rolePick_def sampleState_def sampleParty_def twiceSeated_def roster_def)
  then have e: "interactionCreate sampleRuntime ?i ?s =
      (Failed SlotTaken, snd (interactionCreate sampleRuntime ?i ?s))"
    by (metis prod.collapse)
  have k: "map_of RUN_CONFIGS ''Raid'' = None"
    by (simp add: RUN_CONFIGS_def)
  from refusal_changes_nothing [of sampleRuntime ?i ?s SlotTaken
      "snd (interactionCreate sampleRuntime ?i ?s)" "''Raid''" "''100''" "''party_2''"
      1793688060000 "Sent ''901''" 1793688060000] e k
  show ?thesis by simp
qed

subsection \<open>External players\<close>

lemma rev_take_drop:
  "xs = rev (dropWhile P (rev xs)) @ rev (takeWhile P (rev xs))"
proof -
  have "rev xs = takeWhile P (rev xs) @ dropWhile P (rev xs)" by simp
  then have "rev (rev xs) = rev (takeWhile P (rev xs) @ dropWhile P (rev xs))" by (rule arg_cong)
  then show ?thesis by (simp only: rev_rev_ident rev_append)
qed

lemma trim_split:
  "\<exists>pre post. s = pre @ trim s @ post \<and> (\<forall>c \<in> set pre. isWhiteSpace c) \<and> (\<forall>c \<in> set post. isWhiteSpace c)"
proof -
  let ?t = "dropWhile isWhiteSpace s"
  have 1: "s = takeWhile isWhiteSpace s @ ?t" by simp
  have 2: "?t = trim s @ rev (takeWhile isWhiteSpace (rev ?t))"
    unfolding trim_def by (rule rev_take_drop)
  have 3: "\<forall>c \<in> set (takeWhile isWhiteSpace s). isWhiteSpace c"
    by (auto dest: set_takeWhileD)
  have 4: "\<forall>c \<in> set (rev (takeWhile isWhiteSpace (rev ?t))). isWhiteSpace c"
    by (auto dest: set_takeWhileD)
  from 1 2 have "s = takeWhile isWhiteSpace s @ trim s @ rev (takeWhile isWhiteSpace (rev ?t))"
    by simp
  with 3 4 show ?thesis by blast
qed

lemma dropWhile_all_Nil: "(\<forall>c \<in> set (dropWhile P xs). P c) \<Longrightarrow> dropWhile P xs = []"
proof (rule ccontr)
  assume all: "\<forall>c \<in> set (dropWhile P xs). P c" and ne: "dropWhile P xs \<noteq> []"
  from ne have "\<not> P (hd (dropWhile P xs))" by (rule hd_dropWhile)
  moreover from ne have "hd (dropWhile P xs) \<in> set (dropWhile P xs)" by (rule hd_in_set)
  ultimately show False using all by blast
qed

lemma trim_empty_iff: "trim s = [] \<longleftrightarrow> (\<forall>c \<in> set s. isWhiteSpace c)"
proof
  assume "trim s = []"
  then have "dropWhile isWhiteSpace (rev (dropWhile isWhiteSpace s)) = []"
    by (simp only: trim_def rev_is_Nil_conv)
  then have "\<forall>c \<in> set (rev (dropWhile isWhiteSpace s)). isWhiteSpace c"
    by (simp only: dropWhile_eq_Nil_conv)
  then have "\<forall>c \<in> set (dropWhile isWhiteSpace s). isWhiteSpace c"
    by (simp only: set_rev)
  then have "dropWhile isWhiteSpace s = []" by (rule dropWhile_all_Nil)
  then show "\<forall>c \<in> set s. isWhiteSpace c" by (simp only: dropWhile_eq_Nil_conv)
next
  assume "\<forall>c \<in> set s. isWhiteSpace c"
  then have d: "dropWhile isWhiteSpace s = []" by (simp only: dropWhile_eq_Nil_conv)
  show "trim s = []" unfolding trim_def d by simp
qed

lemma trim_ends:
  assumes "trim s \<noteq> []"
  shows "\<not> isWhiteSpace (hd (trim s)) \<and> \<not> isWhiteSpace (last (trim s))"
proof -
  let ?t = "dropWhile isWhiteSpace s"
  let ?u = "dropWhile isWhiteSpace (rev ?t)"
  from assms have u: "?u \<noteq> []" by (simp only: trim_def rev_is_Nil_conv not_False_eq_True)
  have t: "?t \<noteq> []"
  proof
    assume e: "?t = []"
    have "?u = []" unfolding e by simp
    with u show False by simp
  qed
  have hu: "\<not> isWhiteSpace (hd ?u)" using u by (rule hd_dropWhile)
  have ht: "\<not> isWhiteSpace (hd ?t)" using t by (rule hd_dropWhile)
  have "last ?u = last (rev ?t)" using u
    by (metis last_appendR takeWhile_dropWhile_id)
  then have "last ?u = hd ?t" using t by (simp add: last_rev)
  with ht hu u show ?thesis by (simp add: trim_def hd_rev last_rev)
qed

text \<open>
  C10. In the modal's handler the typed name is trimmed before it is tested for
  emptiness. When the party is in the map, the user is its leader and the chosen slot is
  free: a name of whitespace only is refused as empty and nothing changes; any other
  name is accepted, and the slot then holds \<open>IGN:\<close> followed by the typed text without the
  whitespace before and after it, a name that is not empty and neither starts nor ends
  with whitespace.
\<close>

theorem external_name_is_trimmed:
  assumes "map_of (activeParties s) partyId = Some party"
    and "userId = leader party" and "roleIdx < length (slots party)"
    and "user (slots party ! roleIdx) = None"
    and "externalIgn rt partyId userId roleIdx ign_input s = (r, s')"
  shows "((\<forall>c \<in> set ign_input. isWhiteSpace c) \<longrightarrow> r = Failed EmptyName \<and> s' = s) \<and>
     (\<not> (\<forall>c \<in> set ign_input. isWhiteSpace c) \<longrightarrow> r = Done \<and>
        (\<exists>party' name pre post. map_of (activeParties s') partyId = Some party' \<and>
           user (slots party' ! roleIdx) = Some (''IGN:'' @ name) \<and>
           ign_input = pre @ name @ post \<and>
           (\<forall>c \<in> set pre. isWhiteSpace c) \<and> (\<forall>c \<in> set post. isWhiteSpace c) \<and>
           name \<noteq> [] \<and> \<not> isWhiteSpace (hd name) \<and> \<not> isWhiteSpace (last name)))"
proof -
  have blank: "r = Failed EmptyName \<and> s' = s" if "\<forall>c \<in> set ign_input. isWhiteSpace c"
  proof -
    from that have "trim ign_input = []" by (simp only: trim_empty_iff)
    with assms show ?thesis by (simp add: externalIgn_def)
  qed
  have named: "r = Done \<and>
        (\<exists>party' name pre post. map_of (activeParties s') partyId = Some party' \<and>
           user (slots party' ! roleIdx) = Some (''IGN:'' @ name) \<and>
           ign_input = pre @ name @ post \<and>
           (\<forall>c \<in> set pre. isWhiteSpace c) \<and> (\<forall>c \<in> set post. isWhiteSpace c) \<and>
           name \<noteq> [] \<and> \<not> isWhiteSpace (hd name) \<and> \<not> isWhiteSpace (last name))"
    if "\<not> (\<forall>c \<in> set ign_input. isWhiteSpace c)"
  proof -
    from that have ne: "trim ign_input \<noteq> []" by (simp only: trim_empty_iff not_False_eq_True)
    with assms have r: "r = Done"
      and s': "s' = saveData rt (store partyId (setUser roleIdx (Some (''IGN:'' @ trim ign_input)) party) s)"
      by (simp_all add: externalIgn_def)
    from s' assms(1) have p: "map_of (activeParties s') partyId =
        Some (setUser roleIdx (Some (''IGN:'' @ trim ign_input)) party)"
      by (simp add: activeParties_saveData map_of_store)
    have u: "user (slots (setUser roleIdx (Some (''IGN:'' @ trim ign_input)) party) ! roleIdx) =
        Some (''IGN:'' @ trim ign_input)"
      using assms(3) by (simp add: setUser_def)
    from trim_split obtain pre post where sp: "ign_input = pre @ trim ign_input @ post"
      "\<forall>c \<in> set pre. isWhiteSpace c" "\<forall>c \<in> set post. isWhiteSpace c" by blast
    from trim_ends [OF ne] p u sp ne r show ?thesis by blast
  qed
  from blank named show ?thesis by blast
qed

text \<open>The theorem at the leader's input \<open>"  Bob the Tank "\<close> for the free slot 3.\<close>

theorem external_name_is_trimmed_witness:
  "map_of (activeParties (sampleState twiceSeated)) ''party_1'' = Some (sampleParty twiceSeated) \<and>
   ''100'' = leader (sampleParty twiceSeated) \<and>
   3 < length (slots (sampleParty twiceSeated)) \<and>
   user (slots (sampleParty twiceSeated) ! 3) = None \<and>
   \<not> (\<forall>c \<in> set ''  Bob the Tank ''. isWhiteSpace c) \<and>
   fst (externalIgn sampleRuntime ''party_1'' ''100'' 3 ''  Bob the Tank '' (sampleState twiceSeated)) = Done"
proof -
  let ?s = "sampleState twiceSeated"
  let ?e = "externalIgn sampleRuntime ''party_1'' ''100'' 3 ''  Bob the Tank '' ?s"
  have h1: "map_of (activeParties ?s) ''party_1'' = Some (sampleParty twiceSeated)"
    by (simp add: sampleState_def)
  have h2: "''100'' = leader (sampleParty twiceSeated)"
    by (simp add: sampleParty_def)
  have h3: "3 < length (slots (sampleParty twiceSeated))"
    by (simp add: sampleParty_def twiceSeated_def roster_def)
  have h4: "user (slots (sampleParty twiceSeated) ! 3) = None"
    by (simp add: sampleParty_def twiceSeated_def roster_def)
  have h5: "?e = (fst ?e, snd ?e)" by simp
  have h6: "\<not> (\<forall>c \<in> set ''  Bob the Tank ''. isWhiteSpace c)"
    by (simp add: isWhiteSpace_def)
  from external_name_is_trimmed [OF h1 h2 h3 h4 h5] h6 have "fst ?e = Done" by blast
  with h1 h2 h3 h4 h6 show ?thesis by blast
qed

text \<open>
  The external players stay trimmed under every interaction of a Discord user, whose id
  never starts with \<open>IGN:\<close>: the modal's handler is the only one that writes a \<open>user\<close> with
  that prefix.
\<close>

lemma externalsTrimmed_saveData [simp]: "externalsTrimmed (saveData rt s) = externalsTrimmed s"
  by (simp add: externalsTrimmed_def activeParties_saveData)

lemma lookup_ok:
  "externalsTrimmed s \<Longrightarrow> map_of (activeParties s) k = Some p \<Longrightarrow> slotsOk p"
  by (auto simp: externalsTrimmed_def list_all_iff dest: map_of_SomeD)

lemma map_entry_all:
  "list_all (\<lambda>(k, p). Q p) al \<Longrightarrow> Q v \<Longrightarrow> list_all (\<lambda>(k, p). Q p) (AList.map_entry k (\<lambda>_. v) al)"
  by (induction al) auto

lemma store_ok: "externalsTrimmed s \<Longrightarrow> slotsOk p \<Longrightarrow> externalsTrimmed (store k p s)"
  unfolding externalsTrimmed_def store_def
  using map_entry_all [of "\<lambda>p. list_all (\<lambda>sl. externalTrimmed (user sl)) (slots p)"]
  by simp

lemma delete_ok:
  "externalsTrimmed s \<Longrightarrow> externalsTrimmed (s\<lparr>activeParties := AList.delete k (activeParties s)\<rparr>)"
  by (auto simp: externalsTrimmed_def list_all_iff AList.delete_eq)

lemma setUser_ok: "slotsOk p \<Longrightarrow> externalTrimmed v \<Longrightarrow> slotsOk (setUser i v p)"
  by (auto simp: setUser_def list_all_iff dest!: set_update_subset_insert [THEN subsetD])

lemma clear_ok:
  "slotsOk p \<Longrightarrow>
   slotsOk (p\<lparr>slots := map (\<lambda>slot. if user slot = Some u then slot\<lparr>user := None\<rparr> else slot) (slots p)\<rparr>)"
  by (auto simp: list_all_iff externalTrimmed_def split: option.splits)

lemma member_ok: "\<not> startsWith u ''IGN:'' \<Longrightarrow> externalTrimmed (Some u)"
  by (simp add: externalTrimmed_def)

lemma none_ok: "externalTrimmed None"
  by (simp add: externalTrimmed_def)

lemma ign_ok: "trim x \<noteq> [] \<Longrightarrow> externalTrimmed (Some (''IGN:'' @ trim x))"
  using trim_ends [of x] by (simp add: externalTrimmed_def trimmedName_def startsWith_def)

lemma buttonAction_ok:
  "externalsTrimmed s \<Longrightarrow> externalsTrimmed (snd (buttonAction rt a partyId userId s))"
  by (cases a)
     (auto simp: buttonAction_def handleLeaveAction_def handleJoinAction_def
        handleDisbandAction_def handleSwitchAction_def handlePingAction_def
        handleExternalAction_def handleKickAction_def handlePromoteAction_def Let_def
        intro!: store_ok clear_ok delete_ok dest: lookup_ok
        split: option.splits if_splits)

lemma store_setUser_ok:
  "externalsTrimmed s \<Longrightarrow> map_of (activeParties s) k = Some p \<Longrightarrow> externalTrimmed v \<Longrightarrow>
   externalsTrimmed (store k (setUser i v p) s)"
  by (blast intro: store_ok setUser_ok lookup_ok)

lemma store_setUser2_ok:
  "externalsTrimmed s \<Longrightarrow> map_of (activeParties s) k = Some p \<Longrightarrow> externalTrimmed v \<Longrightarrow>
   externalTrimmed w \<Longrightarrow> externalsTrimmed (store k (setUser j w (setUser i v p)) s)"
  by (blast intro: store_ok setUser_ok lookup_ok)

lemma store_leader_ok:
  "externalsTrimmed s \<Longrightarrow> map_of (activeParties s) k = Some p \<Longrightarrow>
   externalsTrimmed (store k (p\<lparr>leader := l\<rparr>) s)"
  using lookup_ok [of s k p] store_ok [of s "p\<lparr>leader := l\<rparr>" k] by simp

lemma rolePick_ok:
  "externalsTrimmed s \<Longrightarrow> \<not> startsWith userId ''IGN:'' \<Longrightarrow>
   externalsTrimmed (snd (rolePick rt partyId userId slotIdx s))"
  by (auto simp: rolePick_def intro: store_setUser_ok member_ok split: option.splits)

lemma roleSwitchPick_ok:
  "externalsTrimmed s \<Longrightarrow> \<not> startsWith userId ''IGN:'' \<Longrightarrow>
   externalsTrimmed (snd (roleSwitchPick rt partyId userId newIdx s))"
  by (auto simp: roleSwitchPick_def Let_def
      intro: store_setUser_ok store_setUser2_ok member_ok none_ok split: option.splits)

lemma kickPick_ok:
  "externalsTrimmed s \<Longrightarrow> externalsTrimmed (snd (kickPick rt partyId userId slotIdx s))"
  by (auto simp: kickPick_def intro: store_setUser_ok none_ok split: option.splits)

lemma promotePick_ok:
  "externalsTrimmed s \<Longrightarrow> externalsTrimmed (snd (promotePick rt partyId userId newLeaderId s))"
  by (auto simp: promotePick_def intro: store_leader_ok split: option.splits)

lemma externalIgn_ok:
  "externalsTrimmed s \<Longrightarrow> externalsTrimmed (snd (externalIgn rt partyId userId roleIdx ign_input s))"
proof (cases "map_of (activeParties s) partyId")
  case None
  then show "externalsTrimmed s \<Longrightarrow> ?thesis" by (simp add: externalIgn_def)
next
  case (Some party)
  assume ok: "externalsTrimmed s"
  show ?thesis
  proof (cases "fst (externalIgn rt partyId userId roleIdx ign_input s) = Done")
    case False
    with Some have "snd (externalIgn rt partyId userId roleIdx ign_input s) = s"
      by (auto simp: externalIgn_def Let_def split: if_splits)
    with ok show ?thesis by simp
  next
    case True
    with Some have ne: "trim ign_input \<noteq> []"
      and s': "snd (externalIgn rt partyId userId roleIdx ign_input s) =
        saveData rt (store partyId (setUser roleIdx (Some (''IGN:'' @ trim ign_input)) party) s)"
      by (auto simp: externalIgn_def Let_def split: if_splits)
    from ok Some ign_ok [OF ne] show ?thesis
      unfolding s' by (simp only: externalsTrimmed_saveData store_setUser_ok)
  qed
qed

lemma externals_stay_trimmed:
  assumes "externalsTrimmed s" and "\<not> startsWith (actor i) ''IGN:''"
  shows "externalsTrimmed (snd (interactionCreate rt i s))"
  using assms
  by (cases i)
     (simp_all add: buttonAction_ok rolePick_ok roleSwitchPick_ok kickPick_ok promotePick_ok
        externalIgn_ok externalRoleSelection_def split: option.splits)

subsection \<open>Choices made in a menu that is out of date\<close>

text \<open>
  C2. A member holds at most one slot only as long as every menu is answered before the
  next one is opened. The Claim Role button refuses a member who has a role, but the
  handler of the menu's choice tests the chosen slot alone. The member 200 opens the
  menu twice while holding no slot: both menus are granted, both choices are confirmed,
  and at the end the member holds the slots 1 and 2.
\<close>

theorem second_menu_gives_second_slot:
  "fst (interactions sampleRuntime doubleClaim (sampleState leaderSeated)) =
     [SlotMenu [1, 2, 3, 4, 5, 6, 7], SlotMenu [1, 2, 3, 4, 5, 6, 7], Done, Done] \<and>
   map (\<lambda>(k, p). (k, map user (slots p)))
       (activeParties (snd (interactions sampleRuntime doubleClaim (sampleState leaderSeated)))) =
     [(''party_1'', [Some ''100'', Some ''200'', Some ''200'', None, None, None, None, None])]"
  by code_simp

text \<open>
  C3. The handler of the switch menu's choice does not test the target slot. The leader
  100 opens the switch menu, the member 200 then takes slot 1, and the leader's choice of
  slot 1 is confirmed all the same: the leader moves to slot 1 and the member 200, who
  held it, is in no slot any more.
\<close>

theorem switch_overwrites_taken_slot:
  "fst (interactions sampleRuntime lateSwitch (sampleState leaderSeated)) =
     [SlotMenu [0, 1, 2, 3, 4, 5, 6, 7], SlotMenu [1, 2, 3, 4, 5, 6, 7], Done, Done] \<and>
   map (\<lambda>(k, p). (k, map user (slots p)))
       (activeParties (snd (interactions sampleRuntime lateSwitch (sampleState leaderSeated)))) =
     [(''party_1'', [None, Some ''100'', None, None, None, None, None, None])]"
  by code_simp

text \<open>
  C4. Not every failed precondition is refused. When the leader's choice in the switch
  menu arrives, its target, slot 1, is held by the member 200. The handler answers with
  its confirmation, not with a refusal, and the roster is not what it was before: the
  leader has moved from slot 0 to slot 1 and the member 200 is gone from it.
\<close>

theorem taken_target_is_not_refused:
  "last (fst (interactions sampleRuntime lateSwitch (sampleState leaderSeated))) = Done \<and>
   map (map user \<circ> slots \<circ> snd)
       (activeParties (snd (interactions sampleRuntime (butlast lateSwitch) (sampleState leaderSeated)))) =
     [[Some ''100'', Some ''200'', None, None, None, None, None, None]] \<and>
   map (map user \<circ> slots \<circ> snd)
       (activeParties (snd (interactions sampleRuntime lateSwitch (sampleState leaderSeated)))) =
     [[None, Some ''100'', None, None, None, None, None, None]]"
  by code_simp

text \<open>
  C8. The handler of the promote menu's choice refuses an id with the prefix \<open>IGN:\<close> and
  accepts every other id, in the party or not. The leader 100 opens the promote menu, the
  member 200 then leaves, and the leader's choice of 200 is confirmed: the party's leader
  is now 200, who holds no slot.
\<close>

theorem promote_accepts_departed_member:
  "fst (interactions sampleRuntime latePromote (sampleState pairSeated)) =
     [UserMenu [''100'', ''200''], Done, Done] \<and>
   map (\<lambda>(k, p). (k, leader p, map user (slots p)))
       (activeParties (snd (interactions sampleRuntime latePromote (sampleState pairSeated)))) =
     [(''party_1'', ''200'', [Some ''100'', None, None, None, None, None, None, None])]"
  by code_simp

subsection \<open>The party lock\<close>







text \<open>
  This order is not the work of \<open>withPartyLock\<close>, which chains a promise per party but
  awaits none and holds nobody back: in the same run the platform calls of the two
  handlers overlap, the \<open>finally\<close> block of the second runs before that of the first,
  and the entry of \<open>partyLocks\<close> is never removed.
\<close>

lemma lock_holds_nobody_back:
  "running (occurAll sampleRuntime (take 2 overtaking) (idle (sampleState leaderSeated))) =
     [(0, ''party_1''), (1, ''party_1'')] \<and>
   settled (occurAll sampleRuntime overtaking (idle (sampleState leaderSeated))) = [1, 0] \<and>
   partyLocks (occurAll sampleRuntime overtaking (idle (sampleState leaderSeated))) =
     [(''party_1'', [0, 1])]"
  by code_simp

subsection \<open>Persistence\<close>

lemma slotOfJson_jsonOfSlot: "slotOfJson (jsonOfSlot sl) = Some sl"
  by (cases sl) (auto simp: jsonOfSlot_def split: option.splits)

lemma slotsOfJson_jsonOfSlot: "slotsOfJson (map jsonOfSlot sls) = Some sls"
  by (induction sls) (simp_all add: slotOfJson_jsonOfSlot)

lemma partyOfJson_jsonOfParty:
  "partyOfJson parse (jsonOfParty toISO p) = Some (p\<lparr>createdAt := parse (toISO (createdAt p))\<rparr>)"
  by (cases p) (auto simp: jsonOfParty_def slotsOfJson_jsonOfSlot split: option.splits)

lemma entryOfJson_saved:
  "parse (toISO (createdAt p)) = createdAt p \<Longrightarrow>
   entryOfJson parse (JArray [JString k, jsonOfParty toISO p]) = Some (k, p)"
  by (simp add: partyOfJson_jsonOfParty)

lemma update_fresh: "k \<notin> fst ` set al \<Longrightarrow> AList.update k v al = al @ [(k, v)]"
  by (induction al) auto


lemma loadEntries_saved:
  assumes "distinct (map fst es)"
    and "fst ` set es \<inter> fst ` set (activeParties s) = {}"
    and "\<forall>(k, p) \<in> set es. dateParse rt (toISOString rt (createdAt p)) = createdAt p"
  shows "loadEntries rt now (map (\<lambda>(key, val). JArray [JString key, jsonOfParty (toISOString rt) val]) es) s =
         s\<lparr>activeParties := activeParties s @ es,
           timers := timers s @ map (\<lambda>(k, p). (k, max 0 (lockTimeout - (now - createdAt p)))) es\<rparr>"
  using assms
proof (induction es arbitrary: s)
  case Nil
  then show ?case by simp
next
  case (Cons e es)
  obtain k p where e: "e = (k, p)" by (cases e)
  from Cons.prems e have fresh: "k \<notin> fst ` set (activeParties s)" by auto
  from Cons.prems e have rt: "dateParse rt (toISOString rt (createdAt p)) = createdAt p" by auto
  let ?s1 = "setupLockTimer now k p (s\<lparr>activeParties := AList.update k p (activeParties s)\<rparr>)"
  have s1: "?s1 = s\<lparr>activeParties := activeParties s @ [(k, p)],
                     timers := timers s @ [(k, max 0 (lockTimeout - (now - createdAt p)))]\<rparr>"
    using fresh by (simp add: setupLockTimer_def update_fresh)
  have d: "distinct (map fst es)" using Cons.prems by simp
  have i: "fst ` set es \<inter> fst ` set (activeParties ?s1) = {}"
    using Cons.prems e by (auto simp: s1)
  have r: "\<forall>(k, p) \<in> set es. dateParse rt (toISOString rt (createdAt p)) = createdAt p"
    using Cons.prems by simp
  have en: "entryOfJson (dateParse rt) (JArray [JString k, jsonOfParty (toISOString rt) p]) = Some (k, p)"
    using rt by (rule entryOfJson_saved)
  have "loadEntries rt now
          (map (\<lambda>(key, val). JArray [JString key, jsonOfParty (toISOString rt) val]) (e # es)) s =
        loadEntries rt now
          (map (\<lambda>(key, val). JArray [JString key, jsonOfParty (toISOString rt) val]) es) ?s1"
    unfolding e by (simp only: list.map prod.case loadEntries.simps en option.case)
  also have "\<dots> = ?s1\<lparr>activeParties := activeParties ?s1 @ es,
        timers := timers ?s1 @ map (\<lambda>(k, p). (k, max 0 (lockTimeout - (now - createdAt p)))) es\<rparr>"
    by (rule Cons.IH [OF d i r])
  also have "\<dots> = s\<lparr>activeParties := activeParties s @ e # es,
        timers := timers s @ map (\<lambda>(k, p). (k, max 0 (lockTimeout - (now - createdAt p)))) (e # es)\<rparr>"
    by (simp add: s1 e)
  finally show ?case .
qed

lemma sample_dates:
  "\<forall>(k, p) \<in> set (activeParties (sampleState sls)).
     dateParse sampleRuntime (toISOString sampleRuntime (createdAt p)) = createdAt p"
  by (simp add: sampleState_def sampleParty_def sampleRuntime_def sampleToISO_def sampleParse_def)

text \<open>
  C5. A process saves its map and a new process loads the file: the new map is the old
  one, with the same party ids in the same order and under each id an equal \<open>Party\<close>,
  \<open>user\<close> strings (with or without the prefix \<open>IGN:\<close>) and \<open>createdAt\<close> included. This holds
  when the write succeeds, for a map whose keys are distinct (as the keys of a \<open>Map\<close>
  are), under a runtime whose \<open>Date\<close> constructor reads back what \<open>toISOString\<close> wrote
  for the creation times in the map. The code passes the whole string from the file to
  the \<open>Date\<close> constructor.
\<close>

theorem save_then_load:
  assumes "distinct (map fst (activeParties s))"
    and "fsWrite rt"
    and "\<forall>(k, p) \<in> set (activeParties s). dateParse rt (toISOString rt (createdAt p)) = createdAt p"
  shows "activeParties (clientReady rt now (disk (saveData rt s))) = activeParties s"
  using assms loadEntries_saved [of "activeParties s" "\<lparr>activeParties = [], disk = disk (saveData rt s), timers = []\<rparr>" rt now]
  by (simp add: clientReady_def loadData_def saveData_def jsonOfEntries_def)

text \<open>The theorem at a party that holds a Discord member and an external player.\<close>

theorem save_then_load_witness:
  "distinct (map fst (activeParties (sampleState mixedSeated))) \<and>
   fsWrite sampleRuntime \<and>
   dateParse sampleRuntime (toISOString sampleRuntime (createdAt (sampleParty mixedSeated))) =
     createdAt (sampleParty mixedSeated) \<and>
   activeParties (clientReady sampleRuntime 1793698860000
                    (disk (saveData sampleRuntime (sampleState mixedSeated)))) =
     [(''party_1'', sampleParty mixedSeated)]"
proof -
  have h1: "distinct (map fst (activeParties (sampleState mixedSeated)))"
    by (simp add: sampleState_def)
  have h2: "fsWrite sampleRuntime" by (simp add: sampleRuntime_def)
  note h3 = sample_dates [of mixedSeated]
  have h4: "dateParse sampleRuntime (toISOString sampleRuntime (createdAt (sampleParty mixedSeated))) =
      createdAt (sampleParty mixedSeated)"
    using h3 by (simp add: sampleState_def)
  from save_then_load [OF h1 h2 h3, of 1793698860000] h1 h2 h4
  show ?thesis by (simp add: sampleState_def)
qed

subsection \<open>The lock timer\<close>

text \<open>
  C6. \<open>setupLockTimer\<close> hands one timer to \<open>setTimeout\<close>, with the delay
  \<open>max(0, lockTimeout - (now - createdAt))\<close>. The timer is therefore due at
  \<open>createdAt + lockTimeout\<close> when that instant is still ahead, and at once (delay 0) when
  it has passed. A posted party gets this timer from its time of creation; after a
  restart every party of the file gets it from the \<open>createdAt\<close> that was saved, not from
  the time of the restart (under the conditions of C5).
\<close>

theorem lock_timer_delay:
  "timers (setupLockTimer now partyId party s) =
     timers s @ [(partyId, max 0 (lockTimeout - (now - createdAt party)))] \<and>
   now + max 0 (lockTimeout - (now - createdAt party)) = max now (createdAt party + lockTimeout) \<and>
   (createdAt party + lockTimeout \<le> now \<longrightarrow> max 0 (lockTimeout - (now - createdAt party)) = 0) \<and>
   (handleRunSelection rt runType userId partyId created (Sent sentId) armed s = (Posted, s1) \<longrightarrow>
      timers s1 = timers s @ [(partyId, max 0 (lockTimeout - (armed - created)))]) \<and>
   (distinct (map fst (activeParties s)) \<and> fsWrite rt \<and>
    (\<forall>(k, p) \<in> set (activeParties s). dateParse rt (toISOString rt (createdAt p)) = createdAt p) \<longrightarrow>
      timers (clientReady rt now (disk (saveData rt s))) =
        map (\<lambda>(k, p). (k, max 0 (lockTimeout - (now - createdAt p)))) (activeParties s))"
proof (intro conjI impI)
  show "timers (setupLockTimer now partyId party s) =
     timers s @ [(partyId, max 0 (lockTimeout - (now - createdAt party)))]"
    by (simp add: setupLockTimer_def)
  show "now + max 0 (lockTimeout - (now - createdAt party)) = max now (createdAt party + lockTimeout)"
    by linarith
  show "max 0 (lockTimeout - (now - createdAt party)) = 0" if "createdAt party + lockTimeout \<le> now"
    using that by linarith
  show "timers s1 = timers s @ [(partyId, max 0 (lockTimeout - (armed - created)))]"
    if "handleRunSelection rt runType userId partyId created (Sent sentId) armed s = (Posted, s1)"
    using that
    by (auto simp: handleRunSelection_def setupLockTimer_def timers_saveData store_def Let_def
        split: option.splits)
  show "timers (clientReady rt now (disk (saveData rt s))) =
        map (\<lambda>(k, p). (k, max 0 (lockTimeout - (now - createdAt p)))) (activeParties s)"
    if "distinct (map fst (activeParties s)) \<and> fsWrite rt \<and>
    (\<forall>(k, p) \<in> set (activeParties s). dateParse rt (toISOString rt (createdAt p)) = createdAt p)"
    using that loadEntries_saved [of "activeParties s"
        "\<lparr>activeParties = [], disk = disk (saveData rt s), timers = []\<rparr>" rt now]
    by (simp add: clientReady_def loadData_def saveData_def jsonOfEntries_def)
qed

text \<open>
  The theorem at a party created at 06:41:00: loaded one hour later its timer has two
  hours to run, loaded four hours later it is due at once; and at a party posted one
  second after its creation.
\<close>

theorem lock_timer_delay_witness:
  "distinct (map fst (activeParties (sampleState mixedSeated))) \<and>
   fsWrite sampleRuntime \<and>
   dateParse sampleRuntime (toISOString sampleRuntime (createdAt (sampleParty mixedSeated))) =
     createdAt (sampleParty mixedSeated) \<and>
   timers (clientReady sampleRuntime 1793691660000
             (disk (saveData sampleRuntime (sampleState mixedSeated)))) = [(''party_1'', 7200000)] \<and>
   createdAt (sampleParty mixedSeated) + lockTimeout \<le> 1793702460000 \<and>
   timers (clientReady sampleRuntime 1793702460000
             (disk (saveData sampleRuntime (sampleState mixedSeated)))) = [(''party_1'', 0)] \<and>
   fst (handleRunSelection sampleRuntime ''UWSC'' ''100'' ''party_2'' 1793688060000 (Sent ''901'')
          1793688061000 (sampleState mixedSeated)) = Posted \<and>
   timers (snd (handleRunSelection sampleRuntime ''UWSC'' ''100'' ''party_2'' 1793688060000 (Sent ''901'')
          1793688061000 (sampleState mixedSeated))) = [(''party_2'', 10799000)]"
proof -
  let ?s = "sampleState mixedSeated"
  let ?h = "handleRunSelection sampleRuntime ''UWSC'' ''100'' ''party_2'' 1793688060000 (Sent ''901'')
          1793688061000 ?s"
  have h1: "distinct (map fst (activeParties ?s))"
    by (simp add: sampleState_def)
  have h2: "fsWrite sampleRuntime" by (simp add: sampleRuntime_def)
  note h3 = sample_dates [of mixedSeated]
  have h4: "createdAt (sampleParty mixedSeated) + lockTimeout \<le> 1793702460000"
    by (simp add: sampleParty_def lockTimeout_def)
  have h5: "fst ?h = Posted"
    by (simp add: handleRunSelection_def RUN_CONFIGS_def Let_def)
  then have h6: "?h = (Posted, snd ?h)" by (metis prod.collapse)
  have a: "timers (clientReady sampleRuntime 1793691660000 (disk (saveData sampleRuntime ?s))) =
      [(''party_1'', 7200000)]"
    using lock_timer_delay [of 1793691660000 "''party_1''" "sampleParty mixedSeated" ?s sampleRuntime]
      h1 h2 h3
    by (simp add: sampleState_def sampleParty_def lockTimeout_def)
  have b: "timers (clientReady sampleRuntime 1793702460000 (disk (saveData sampleRuntime ?s))) =
      [(''party_1'', 0)]"
    using lock_timer_delay [of 1793702460000 "''party_1''" "sampleParty mixedSeated" ?s sampleRuntime]
      h1 h2 h3
    by (simp add: sampleState_def sampleParty_def lockTimeout_def)
  have c: "timers (snd ?h) = [(''party_2'', 10799000)]"
    using lock_timer_delay [of _ "''party_2''" _ ?s sampleRuntime "''UWSC''" "''100''"
        1793688060000 "''901''" 1793688061000 "snd ?h"] h6
    by (simp add: sampleState_def lockTimeout_def)
  have h7: "dateParse sampleRuntime (toISOString sampleRuntime (createdAt (sampleParty mixedSeated))) =
      createdAt (sampleParty mixedSeated)"
    using h3 by (simp add: sampleState_def)
  from h1 h2 h7 h4 h5 a b c show ?thesis by blast
qed

subsection \<open>Expiry\<close>

text \<open>
  C7. The timer's callback does not remove a party that has no \<open>messageId\<close>: its first
  test returns before the \<open>try\<close> whose \<open>finally\<close> block deletes and saves. The party
  \<open>party_1\<close> was stored while the channel could not be fetched, and was saved and loaded
  again. It is in the map, its timer is due at once, and the timer's callback leaves it
  in the map.
\<close>

theorem unposted_party_outlives_its_timer:
  "map fst (activeParties stranded) = [''party_1''] \<and>
   map (messageId \<circ> snd) (activeParties stranded) = [None] \<and>
   timers stranded = [(''party_1'', 0)] \<and>
   map fst (activeParties (lockParty sampleRuntime Edited ''party_1'' stranded)) = [''party_1'']"
  by code_simp

lemma activeParties_dropParty:
  "activeParties (dropParty rt partyId s) = AList.delete partyId (activeParties s)"
  by (simp add: dropParty_def activeParties_saveData)

lemma disk_dropParty:
  "fsWrite rt \<Longrightarrow> disk (dropParty rt partyId s) =
     Some (jsonOfEntries (toISOString rt) (AList.delete partyId (activeParties s)))"
  by (simp add: dropParty_def saveData_def)

lemma timers_dropParty: "timers (dropParty rt partyId s) = timers s"
  by (simp add: dropParty_def timers_saveData)

lemma dropParty_twice: "dropParty rt partyId (dropParty rt partyId s) = dropParty rt partyId s"
  by (simp add: dropParty_def saveData_def AList.delete_idem)

lemma lockParty_absent:
  "map_of (activeParties s) partyId = None \<Longrightarrow> lockParty rt outcome partyId s = s"
  by (simp add: lockParty_def)

lemma lockParty_posted:
  assumes "map_of (activeParties s) partyId = Some party" "messageId party = Some m" "m \<noteq> []"
  shows "lockParty rt outcome partyId s = dropParty rt partyId s"
  using assms by (cases outcome) (simp_all add: lockParty_def dropParty_twice)

lemma map_of_delete_same: "map_of (AList.delete k al) k = None"
  by (simp add: AList.delete_conv')

text \<open>
  The timer's callback removes a party that has a \<open>messageId\<close>:
  whatever becomes of the calls to the platform, the party is deleted from the map, the
  other parties stay, and the map without it is written to the file when the write
  succeeds. On an id that is not in the map, and on a party without a \<open>messageId\<close>, the
  callback changes nothing. A second call for the same id changes nothing more, and
  neither does a call after the leader has disbanded the party.
\<close>

lemma expire_removes_posted_party:
  "(map_of (activeParties s) partyId = Some party \<and> messageId party = Some m \<and> m \<noteq> [] \<longrightarrow>
      activeParties (lockParty rt outcome partyId s) = AList.delete partyId (activeParties s) \<and>
      map_of (activeParties (lockParty rt outcome partyId s)) partyId = None \<and>
      timers (lockParty rt outcome partyId s) = timers s \<and>
      (fsWrite rt \<longrightarrow> disk (lockParty rt outcome partyId s) =
         Some (jsonOfEntries (toISOString rt) (AList.delete partyId (activeParties s))))) \<and>
   (map_of (activeParties s) partyId = None \<longrightarrow> lockParty rt outcome partyId s = s) \<and>
   (map_of (activeParties s) partyId = Some party \<and> messageId party \<in> {None, Some []} \<longrightarrow>
      lockParty rt outcome partyId s = s) \<and>
   lockParty rt outcome' partyId (lockParty rt outcome partyId s) = lockParty rt outcome partyId s \<and>
   (map_of (activeParties s) partyId = Some party \<longrightarrow>
      lockParty rt outcome partyId (snd (handleDisbandAction rt (leader party) partyId party s)) =
        snd (handleDisbandAction rt (leader party) partyId party s))"
proof (intro conjI impI)
  assume a: "map_of (activeParties s) partyId = Some party \<and> messageId party = Some m \<and> m \<noteq> []"
  then have l: "lockParty rt outcome partyId s = dropParty rt partyId s"
    by (simp add: lockParty_posted)
  show "activeParties (lockParty rt outcome partyId s) = AList.delete partyId (activeParties s)"
    by (simp add: l activeParties_dropParty)
  show "map_of (activeParties (lockParty rt outcome partyId s)) partyId = None"
    by (simp add: l activeParties_dropParty map_of_delete_same)
  show "timers (lockParty rt outcome partyId s) = timers s"
    by (simp add: l timers_dropParty)
  show "disk (lockParty rt outcome partyId s) =
         Some (jsonOfEntries (toISOString rt) (AList.delete partyId (activeParties s)))"
    if "fsWrite rt" using that by (simp add: l disk_dropParty)
next
  assume "map_of (activeParties s) partyId = None"
  then show "lockParty rt outcome partyId s = s" by (rule lockParty_absent)
next
  assume "map_of (activeParties s) partyId = Some party \<and> messageId party \<in> {None, Some []}"
  then show "lockParty rt outcome partyId s = s" by (auto simp: lockParty_def)
next
  show "lockParty rt outcome' partyId (lockParty rt outcome partyId s) = lockParty rt outcome partyId s"
  proof (cases "map_of (activeParties s) partyId")
    case None
    then show ?thesis by (simp add: lockParty_absent)
  next
    case (Some p)
    show ?thesis
    proof (cases "messageId p \<in> {None, Some []}")
      case True
      with Some have "lockParty rt outcome partyId s = s" by (auto simp: lockParty_def)
      moreover from Some True have "lockParty rt outcome' partyId s = s" by (auto simp: lockParty_def)
      ultimately show ?thesis by simp
    next
      case False
      then obtain m where "messageId p = Some m" "m \<noteq> []" by (cases "messageId p") auto
      with Some have "lockParty rt outcome partyId s = dropParty rt partyId s"
        by (simp add: lockParty_posted)
      moreover have "map_of (activeParties (dropParty rt partyId s)) partyId = None"
        by (simp add: activeParties_dropParty map_of_delete_same)
      ultimately show ?thesis by (simp add: lockParty_absent)
    qed
  qed
next
  assume "map_of (activeParties s) partyId = Some party"
  have "map_of (activeParties (snd (handleDisbandAction rt (leader party) partyId party s))) partyId = None"
    by (simp add: handleDisbandAction_def activeParties_saveData map_of_delete_same)
  then show "lockParty rt outcome partyId (snd (handleDisbandAction rt (leader party) partyId party s)) =
        snd (handleDisbandAction rt (leader party) partyId party s)"
    by (rule lockParty_absent)
qed

text \<open>
  So it is at the posted sample party, which the callback removes, and at the id
  \<open>party_9\<close>, which is not in the map.
\<close>

lemma expire_removes_posted_party_sample:
  "map_of (activeParties (sampleState mixedSeated)) ''party_1'' = Some (sampleParty mixedSeated) \<and>
   messageId (sampleParty mixedSeated) = Some ''900'' \<and> ''900'' \<noteq> [] \<and>
   fsWrite sampleRuntime \<and>
   activeParties (lockParty sampleRuntime Edited ''party_1'' (sampleState mixedSeated)) = [] \<and>
   disk (lockParty sampleRuntime Edited ''party_1'' (sampleState mixedSeated)) = Some (JArray []) \<and>
   map_of (activeParties (sampleState mixedSeated)) ''party_9'' = None \<and>
   lockParty sampleRuntime Edited ''party_9'' (sampleState mixedSeated) = sampleState mixedSeated"
proof -
  let ?s = "sampleState mixedSeated"
  have h1: "map_of (activeParties ?s) ''party_1'' = Some (sampleParty mixedSeated)"
    by (simp add: sampleState_def)
  have h2: "messageId (sampleParty mixedSeated) = Some ''900''"
    by (simp add: sampleParty_def)
  have h3: "''900'' \<noteq> []" by simp
  have h4: "fsWrite sampleRuntime" by (simp add: sampleRuntime_def)
  have h5: "map_of (activeParties ?s) ''party_9'' = None"
    by (simp add: sampleState_def)
  have a: "activeParties (lockParty sampleRuntime Edited ''party_1'' ?s) = [] \<and>
      disk (lockParty sampleRuntime Edited ''party_1'' ?s) = Some (JArray [])"
    using expire_removes_posted_party [of ?s "''party_1''" "sampleParty mixedSeated" "''900''"
        sampleRuntime Edited Edited] h1 h2 h3 h4
    by (simp add: sampleState_def jsonOfEntries_def)
  have b: "lockParty sampleRuntime Edited ''party_9'' ?s = ?s"
    using expire_removes_posted_party [of ?s "''party_9''" "sampleParty mixedSeated" "''900''"
        sampleRuntime Edited Edited] h5
    by blast
  from h1 h2 h3 h4 h5 a b show ?thesis by blast
qed

end
